theory Spec2Isabelle
  imports Main
begin

section \<open>Python values\<close>

text \<open>
  The values that \<open>response.json()\<close> produces and that request parameters and payloads are
  built from: \<open>None\<close>, booleans, integers, strings, lists and dictionaries. A dictionary is
  an association list read with \<open>map_of\<close>; the code only ever adds keys that are new, so
  the list keeps Python's insertion order. Floating-point numbers play no part in the
  code and are left out.
\<close>

datatype pyval =
    PNone
  | PBool bool
  | PInt int
  | PStr string
  | PList "pyval list"
  | PDict "(string \<times> pyval) list"

text \<open>The exceptions that the modelled code raises or lets escape.\<close>

datatype py_exception =
    DevRevAPIError pyval int string
    \<comment> \<open>message, status\_code, response\_body\<close>
  | ValueError string
  | TypeError
  | AttributeError
  | PlainException string
    \<comment> \<open>\<open>Exception(msg)\<close>\<close>

text \<open>\<open>s.startswith(p)\<close>\<close>

definition startswith :: "string \<Rightarrow> string \<Rightarrow> bool" where
  "startswith s p = (take (length p) s = p)"

text \<open>\<open>sub in s\<close> for two strings: \<open>sub\<close> occurs in \<open>s\<close> as a contiguous piece.\<close>

fun str_contains :: "string \<Rightarrow> string \<Rightarrow> bool" where
  "str_contains sub [] = (sub = [])"
| "str_contains sub (c # cs) = (startswith (c # cs) sub \<or> str_contains sub cs)"

text \<open>
  \<open>key in v\<close> with a string key: membership of the key in a dictionary, of the string among
  the elements of a list, substring test on a string; \<open>None\<close>, booleans and integers are
  not iterable and raise \<open>TypeError\<close>.
\<close>

fun py_in :: "string \<Rightarrow> pyval \<Rightarrow> py_exception + bool" where
  "py_in k (PDict kvs) = Inr (k \<in> set (map fst kvs))"
| "py_in k (PList xs) = Inr (PStr k \<in> set xs)"
| "py_in k (PStr s) = Inr (str_contains k s)"
| "py_in k PNone = Inl TypeError"
| "py_in k (PBool b) = Inl TypeError"
| "py_in k (PInt n) = Inl TypeError"

text \<open>
  \<open>v[key]\<close> with a string key, used only after \<open>key in v\<close> held: the value stored in a
  dictionary; a list and a string take integer indices only and the other values cannot
  be subscripted, so they raise \<open>TypeError\<close>.
\<close>

fun py_getitem :: "pyval \<Rightarrow> string \<Rightarrow> py_exception + pyval" where
  "py_getitem (PDict kvs) k =
     (case map_of kvs k of Some v \<Rightarrow> Inr v | None \<Rightarrow> Inl (PlainException ''KeyError''))"
| "py_getitem v k = Inl TypeError"

text \<open>
  \<open>v.get(key, default)\<close>: only a dictionary has the method; on every other value the
  attribute lookup raises \<open>AttributeError\<close>.
\<close>

fun py_get :: "pyval \<Rightarrow> string \<Rightarrow> pyval \<Rightarrow> py_exception + pyval" where
  "py_get (PDict kvs) k dflt = Inr (case map_of kvs k of Some v \<Rightarrow> v | None \<Rightarrow> dflt)"
| "py_get v k dflt = Inl AttributeError"

text \<open>Truth value of an optional string: \<open>None\<close> and the empty string are false.\<close>

fun truthy :: "string option \<Rightarrow> bool" where
  "truthy None = False"
| "truthy (Some s) = (s \<noteq> [])"

section \<open>errors.py\<close>

text \<open>
  An HTTP response as the error classifier reads it: \<open>status_code\<close>, \<open>text\<close> (here
  \<open>body_text\<close>) and the result of \<open>json()\<close>, \<open>None\<close> when the body is not JSON and the
  call raises a decode error.
\<close>

record http_response =
  status_code :: int
  body_text :: string
  json_result :: "pyval option"

text \<open>A \<open>requests.exceptions.RequestException\<close>; its \<open>response\<close> attribute may be \<open>None\<close>.\<close>

record request_exception =
  response :: "http_response option"

definition default_message :: string where
  "default_message = ''An error occurred while communicating with the DevRev API''"

text \<open>The \<open>except\<close> branch of the classifier: a fixed message for four status codes.\<close>

definition status_message :: "int \<Rightarrow> string" where
  "status_message status =
     (if status = 401 then ''Authentication failed. Please check your API key.''
      else if status = 403 then ''You don'' @ [CHR 0x27] @ ''t have permission to access this resource.''
      else if status = 404 then ''The requested resource was not found.''
      else if status = 429 then ''Rate limit exceeded. Please try again later.''
      else default_message)"

text \<open>
  The \<open>try\<close> body of the classifier once \<open>json()\<close> has returned \<open>error_data\<close>: the
  \<open>message\<close> entry, else the \<open>error\<close> entry, else the default message. A \<open>TypeError\<close>
  raised here is not among the exceptions the \<open>except\<close> clause names and escapes.
\<close>

definition extract_message :: "pyval \<Rightarrow> py_exception + pyval" where
  "extract_message error_data =
     (case py_in ''message'' error_data of
        Inl ex \<Rightarrow> Inl ex
      | Inr True \<Rightarrow> py_getitem error_data ''message''
      | Inr False \<Rightarrow>
          (case py_in ''error'' error_data of
             Inl ex \<Rightarrow> Inl ex
           | Inr True \<Rightarrow> py_getitem error_data ''error''
           | Inr False \<Rightarrow> Inr (PStr default_message)))"

text \<open>
  \<open>handle_api_error\<close>: \<open>Inl\<close> is the exception it raises, \<open>Inr\<close> the pair it returns.
\<close>

definition handle_api_error :: "request_exception \<Rightarrow> py_exception + (string \<times> int)" where
  "handle_api_error error =
     (case response error of
        Some r \<Rightarrow>
          (case json_result r of
             Some error_data \<Rightarrow>
               (case extract_message error_data of
                  Inl ex \<Rightarrow> Inl ex
                | Inr message \<Rightarrow> Inl (DevRevAPIError message (status_code r) (body_text r)))
           | None \<Rightarrow>
               Inl (DevRevAPIError (PStr (status_message (status_code r))) (status_code r) (body_text r)))
      | None \<Rightarrow>
          Inr (''Could not connect to DevRev API. Please check your internet connection.'', 503))"

section \<open>The network and what a call leaves behind\<close>

text \<open>
  The settings the code reads from \<open>config.api\<close>: \<open>base_url\<close>, \<open>timeout\<close> and
  \<open>retries\<close>. They are integers of Python, so \<open>retries\<close> may be negative.
\<close>

record api_config =
  api_base_url :: string
  api_timeout :: int
  api_retries :: int

text \<open>
  One call of \<open>requests.get\<close> or \<open>requests.post\<close>: the method, the URL and the keyword
  arguments \<open>params\<close>, \<open>json\<close>, \<open>timeout\<close> and \<open>headers\<close>.
\<close>

record request =
  req_method :: string
  req_url :: string
  req_params :: "(string \<times> pyval) list option"
  req_json :: "(string \<times> pyval) list option"
  req_timeout :: int
  req_headers :: "(string \<times> string) list"

text \<open>
  What one pass through a \<open>try\<close> body meets: \<open>Succeeds data\<close> when the call returned,
  \<open>raise_for_status\<close> accepted the status and \<open>json()\<close> gave \<open>data\<close>; \<open>Fails e\<close> when one
  of the three raised the \<open>RequestException\<close> \<open>e\<close> (a timeout, a connection error, a
  non-2xx status, a body that is not JSON). The remote service is a function from the
  number of the attempt, counted from 0, to its result.
\<close>

datatype attempt_result = Succeeds pyval | Fails request_exception

text \<open>The observable effects of a call, in order: network calls and \<open>time.sleep\<close>.\<close>

datatype event = Attempt request | Sleep int

fun attempts :: "event list \<Rightarrow> request list" where
  "attempts [] = []"
| "attempts (Attempt rq # evs) = rq # attempts evs"
| "attempts (Sleep n # evs) = attempts evs"

fun sleeps :: "event list \<Rightarrow> int list" where
  "sleeps [] = []"
| "sleeps (Attempt rq # evs) = sleeps evs"
| "sleeps (Sleep n # evs) = n # sleeps evs"

text \<open>The effects \<open>evs\<close> happen, then the rest of the computation runs.\<close>

definition after :: "event list \<Rightarrow> event list \<times> 'a \<Rightarrow> event list \<times> 'a" where
  "after evs res = (evs @ fst res, snd res)"

text \<open>A remote service that answers every attempt in the same way.\<close>

definition every_attempt :: "attempt_result \<Rightarrow> nat \<Rightarrow> attempt_result" where
  "every_attempt r i = r"

text \<open>The settings \<open>load_config\<close> produces when the environment sets none of them.\<close>

definition default_config :: api_config where
  "default_config = \<lparr>api_base_url = ''https://api.devrev.ai'', api_timeout = 30, api_retries = 3\<rparr>"

section \<open>auth.py\<close>

definition DEV_USER_SELF_ENDPOINT :: string where
  "DEV_USER_SELF_ENDPOINT = ''/dev-users.self''"

text \<open>
  The body of \<open>for attempt in range(max_retries + 1)\<close> from \<open>attempt\<close> on. Falling out
  of the loop ends the function, which then returns \<open>None\<close>.
\<close>

function validate_token_loop ::
  "int \<Rightarrow> request \<Rightarrow> (nat \<Rightarrow> attempt_result) \<Rightarrow> nat \<Rightarrow> event list \<times> (py_exception + pyval)"
where
  "validate_token_loop max_retries rq net attempt =
     (if int attempt < max_retries + 1 then
        (case net attempt of
           Succeeds user_data \<Rightarrow> ([Attempt rq], py_get user_data ''dev_user'' PNone)
         | Fails e \<Rightarrow>
             (if int attempt = max_retries then ([Attempt rq], Inr PNone)
              else after [Attempt rq, Sleep (2 ^ attempt)]
                     (validate_token_loop max_retries rq net (Suc attempt))))
      else ([], Inr PNone))"
  by pat_completeness auto
termination
  by (relation "measure (\<lambda>(max_retries, rq, net, attempt). nat (max_retries + 1 - int attempt))") auto

declare validate_token_loop.simps [simp del]

text \<open>The call \<open>requests.get(url, headers=headers, timeout=timeout)\<close> of the validator.\<close>

definition validate_token_request :: "api_config \<Rightarrow> string \<Rightarrow> request" where
  "validate_token_request cfg key =
     \<lparr>req_method = ''GET'',
      req_url = api_base_url cfg @ DEV_USER_SELF_ENDPOINT,
      req_params = None,
      req_json = None,
      req_timeout = api_timeout cfg,
      req_headers = [(''Authorization'', key), (''Content-Type'', ''application/json'')]\<rparr>"

definition validate_token ::
  "api_config \<Rightarrow> string \<Rightarrow> (nat \<Rightarrow> attempt_result) \<Rightarrow> event list \<times> (py_exception + pyval)"
where
  "validate_token cfg key net =
     validate_token_loop (api_retries cfg) (validate_token_request cfg key) net 0"

section \<open>client.py\<close>

definition SEARCH_ENDPOINT :: string where "SEARCH_ENDPOINT = ''/search.core''"
definition WORKS_ENDPOINT :: string where "WORKS_ENDPOINT = ''/works.get''"
definition WORKS_LIST_ENDPOINT :: string where "WORKS_LIST_ENDPOINT = ''/works.list''"
definition WORKS_CREATE_ENDPOINT :: string where "WORKS_CREATE_ENDPOINT = ''/works.create''"
definition WORKS_UPDATE_ENDPOINT :: string where "WORKS_UPDATE_ENDPOINT = ''/works.update''"
definition PARTS_ENDPOINT :: string where "PARTS_ENDPOINT = ''/parts.get''"
definition PARTS_LIST_ENDPOINT :: string where "PARTS_LIST_ENDPOINT = ''/parts.list''"
definition DEV_USERS_ENDPOINT :: string where "DEV_USERS_ENDPOINT = ''/dev-users.get''"

text \<open>
  The fields of \<open>DevRevClient\<close>; \<open>current_user\<close> is the attribute \<open>_current_user\<close>, a
  dictionary or \<open>None\<close>.
\<close>

record client =
  api_key :: string
  headers :: "(string \<times> string) list"
  timeout :: int
  max_retries :: int
  current_user :: "(string \<times> pyval) list option"

definition DevRevClient :: "api_config \<Rightarrow> string \<Rightarrow> (string \<times> pyval) list option \<Rightarrow> client" where
  "DevRevClient cfg key user =
     \<lparr>api_key = key,
      headers = [(''Authorization'', key), (''Content-Type'', ''application/json'')],
      timeout = api_timeout cfg,
      max_retries = api_retries cfg,
      current_user = user\<rparr>"

text \<open>The unwrapping of a parsed body by endpoint (the \<open>if\<close> chain of \<open>_make_request\<close>).\<close>

definition process_response :: "string \<Rightarrow> pyval \<Rightarrow> py_exception + pyval" where
  "process_response endpoint data =
     (if endpoint = SEARCH_ENDPOINT then py_get data ''results'' (PList [])
      else if endpoint = WORKS_LIST_ENDPOINT then py_get data ''works'' (PList [])
      else if endpoint = WORKS_CREATE_ENDPOINT then py_get data ''work'' (PDict [])
      else if endpoint = WORKS_UPDATE_ENDPOINT then py_get data ''work'' (PDict [])
      else if endpoint = PARTS_ENDPOINT then py_get data ''part'' (PDict [])
      else if endpoint = PARTS_LIST_ENDPOINT then py_get data ''parts'' (PList [])
      else Inr data)"

text \<open>
  The endpoints that have an envelope key, each with its key and the empty value of its
  kind: the empty list for the search and list endpoints, the empty dictionary for the
  single-object endpoints.
\<close>

definition known_envelopes :: "(string \<times> string \<times> pyval) list" where
  "known_envelopes =
     [(SEARCH_ENDPOINT, ''results'', PList []),
      (WORKS_LIST_ENDPOINT, ''works'', PList []),
      (WORKS_CREATE_ENDPOINT, ''work'', PDict []),
      (WORKS_UPDATE_ENDPOINT, ''work'', PDict []),
      (PARTS_ENDPOINT, ''part'', PDict []),
      (PARTS_LIST_ENDPOINT, ''parts'', PList [])]"

text \<open>
  The first statement of the \<open>except\<close> branch, \<open>if retries >= self.max_retries:
  handle_api_error(e)\<close>: the exception that leaves it, or \<open>None\<close> when control goes on to
  the backoff, which it also does when the classifier returns.
\<close>

definition raised_when_exhausted :: "client \<Rightarrow> nat \<Rightarrow> request_exception \<Rightarrow> py_exception option" where
  "raised_when_exhausted self retries e =
     (if max_retries self \<le> int retries then
        (case handle_api_error e of Inl ex \<Rightarrow> Some ex | Inr msg_status \<Rightarrow> None)
      else None)"

text \<open>
  The \<open>while retries <= self.max_retries\<close> loop of \<open>_make_request\<close> from the value
  \<open>retries\<close> on, and the \<open>raise\<close> behind it. Each failed attempt adds one to
  \<open>retries\<close>, so the attempt about to be made is attempt number \<open>retries\<close>.
\<close>

function make_request_loop ::
  "client \<Rightarrow> string \<Rightarrow> request \<Rightarrow> (nat \<Rightarrow> attempt_result) \<Rightarrow> nat \<Rightarrow> event list \<times> (py_exception + pyval)"
where
  "make_request_loop self endpoint rq net retries =
     (if int retries \<le> max_retries self then
        (if req_method rq = ''GET'' \<or> req_method rq = ''POST'' then
           (case net retries of
              Succeeds data \<Rightarrow> ([Attempt rq], process_response endpoint data)
            | Fails e \<Rightarrow>
                (case raised_when_exhausted self retries e of
                   Some ex \<Rightarrow> ([Attempt rq], Inl ex)
                 | None \<Rightarrow>
                     after [Attempt rq, Sleep (2 ^ Suc retries)]
                       (make_request_loop self endpoint rq net (Suc retries))))
         else ([], Inl (ValueError (''Unsupported HTTP method: '' @ req_method rq))))
      else ([], Inl (PlainException ''Maximum retries exceeded'')))"
  by pat_completeness auto
termination
  by (relation "measure (\<lambda>(self, endpoint, rq, net, retries). nat (max_retries self + 1 - int retries))") auto

declare make_request_loop.simps [simp del]

text \<open>
  The URL and the keyword arguments after the two \<open>setdefault\<close> calls; no caller passes
  \<open>timeout\<close> or \<open>headers\<close>, so both come from the client.
\<close>

definition build_request ::
  "api_config \<Rightarrow> client \<Rightarrow> string \<Rightarrow> string \<Rightarrow> (string \<times> pyval) list option \<Rightarrow>
   (string \<times> pyval) list option \<Rightarrow> request"
where
  "build_request cfg self method endpoint params json =
     \<lparr>req_method = method,
      req_url = api_base_url cfg @ endpoint,
      req_params = params,
      req_json = json,
      req_timeout = timeout self,
      req_headers = headers self\<rparr>"

definition make_request ::
  "api_config \<Rightarrow> client \<Rightarrow> string \<Rightarrow> string \<Rightarrow> (string \<times> pyval) list option \<Rightarrow>
   (string \<times> pyval) list option \<Rightarrow> (nat \<Rightarrow> attempt_result) \<Rightarrow> event list \<times> (py_exception + pyval)"
where
  "make_request cfg self method endpoint params json net =
     make_request_loop self endpoint (build_request cfg self method endpoint params json) net 0"

subsection \<open>search\<close>

definition valid_namespaces :: "string list" where
  "valid_namespaces =
     [''account'', ''article'', ''capability'', ''component'', ''conversation'',
      ''custom_object'', ''custom_part'', ''custom_work'', ''dashboard'', ''dev_user'',
      ''enhancement'', ''feature'', ''group'', ''issue'', ''linkable'', ''microservice'',
      ''object_member'', ''operation'', ''opportunity'', ''part'', ''product'', ''project'',
      ''question_answer'', ''rev_org'', ''rev_user'', ''runnable'', ''service_account'',
      ''sys_user'', ''tag'', ''task'', ''ticket'', ''vista'', ''workflow'', ''comment'']"

definition namespace_map :: "(string \<times> string) list" where
  "namespace_map =
     [(''account'', ''account''),
      (''article'', ''artifact''),
      (''capability'', ''capability''),
      (''component'', ''component''),
      (''conversation'', ''conversation''),
      (''comment'', ''comment''),
      (''custom_object'', ''custom_object''),
      (''custom_part'', ''custom_part''),
      (''custom_work'', ''custom_work''),
      (''dashboard'', ''dashboard''),
      (''dev_user'', ''dev_user''),
      (''enhancement'', ''enhancement''),
      (''feature'', ''feature''),
      (''group'', ''group''),
      (''issue'', ''issue''),
      (''linkable'', ''linkable''),
      (''microservice'', ''microservice''),
      (''object_member'', ''object_member''),
      (''operation'', ''operation''),
      (''opportunity'', ''opportunity''),
      (''part'', ''part''),
      (''product'', ''product''),
      (''project'', ''project''),
      (''question_answer'', ''question_answer''),
      (''rev_org'', ''rev_org''),
      (''rev_user'', ''rev_user''),
      (''runnable'', ''runnable''),
      (''service_account'', ''service_account''),
      (''sys_user'', ''sys_user''),
      (''tag'', ''tag''),
      (''task'', ''task''),
      (''ticket'', ''ticket''),
      (''vista'', ''vista''),
      (''workflow'', ''workflow'')]"

text \<open>The \<open>params\<close> dictionary that \<open>search\<close> builds.\<close>

definition search_params :: "string \<Rightarrow> string \<Rightarrow> (string \<times> pyval) list" where
  "search_params query namespace =
     (let namespace = (if namespace \<notin> set valid_namespaces then ''issue'' else namespace)
      in [(''query'', PStr query),
          (''namespaces'',
             PStr (case map_of namespace_map namespace of Some wire \<Rightarrow> wire | None \<Rightarrow> ''issue'')),
          (''limit'', PInt 10)])"

definition search ::
  "api_config \<Rightarrow> client \<Rightarrow> string \<Rightarrow> string \<Rightarrow> (nat \<Rightarrow> attempt_result) \<Rightarrow>
   event list \<times> (py_exception + pyval)"
where
  "search cfg self query namespace net =
     make_request cfg self ''GET'' SEARCH_ENDPOINT (Some (search_params query namespace)) None net"

subsection \<open>create\_work\<close>

definition apostrophe :: string where
  "apostrophe = [CHR 0x27]"

text \<open>
  The two checks and the payload of \<open>create_work\<close>: \<open>Inl\<close> is the \<open>ValueError\<close> raised
  before anything is sent, \<open>Inr\<close> the payload.
\<close>

definition create_work_payload ::
  "client \<Rightarrow> string \<Rightarrow> string \<Rightarrow> string option \<Rightarrow> string option \<Rightarrow>
   py_exception + (string \<times> pyval) list"
where
  "create_work_payload self work_type title applies_to_part body =
     (if work_type \<notin> set [''issue'', ''task''] then
        Inl (ValueError (''Unsupported work type: '' @ work_type @ ''. Must be '' @ apostrophe
               @ ''issue'' @ apostrophe @ '' or '' @ apostrophe @ ''task'' @ apostrophe))
      else if work_type = ''issue'' \<and> \<not> truthy applies_to_part then
        Inl (ValueError ''applies_to_part is required for issues'')
      else
        (let owned_by =
               (case current_user self of
                  None \<Rightarrow> []
                | Some user \<Rightarrow>
                    (if user = [] then []
                     else [case map_of user ''id'' of Some uid \<Rightarrow> uid | None \<Rightarrow> PNone]))
         in Inr ([(''type'', PStr work_type), (''title'', PStr title), (''owned_by'', PList owned_by)]
                 @ (if truthy applies_to_part then [(''applies_to_part'', PStr (the applies_to_part))] else [])
                 @ (if truthy body then [(''body'', PStr (the body))] else []))))"

definition create_work ::
  "api_config \<Rightarrow> client \<Rightarrow> string \<Rightarrow> string \<Rightarrow> string option \<Rightarrow> string option \<Rightarrow>
   (nat \<Rightarrow> attempt_result) \<Rightarrow> event list \<times> (py_exception + pyval)"
where
  "create_work cfg self work_type title applies_to_part body net =
     (case create_work_payload self work_type title applies_to_part body of
        Inl ex \<Rightarrow> ([], Inl ex)
      | Inr payload \<Rightarrow> make_request cfg self ''POST'' WORKS_CREATE_ENDPOINT None (Some payload) net)"

subsection \<open>get\_object\<close>

definition determine_object_type :: "string \<Rightarrow> string" where
  "determine_object_type object_id =
     (if startswith object_id ''ISS-'' then ''issue''
      else if startswith object_id ''TKT-'' then ''ticket''
      else if startswith object_id ''ART-'' then ''article''
      else if object_id = ''SELF'' \<or> startswith object_id ''DEVU-'' then ''user''
      else ''unknown'')"

text \<open>The endpoint \<open>get_object\<close> picks, or the \<open>ValueError\<close> it raises.\<close>

definition get_object_endpoint :: "string \<Rightarrow> py_exception + string" where
  "get_object_endpoint object_id =
     (let object_type = determine_object_type object_id
      in if object_type = ''issue'' then Inr WORKS_ENDPOINT
         else if object_type = ''ticket'' then Inr WORKS_ENDPOINT
         else if object_type = ''article'' then Inr WORKS_ENDPOINT
         else if object_type = ''user'' then Inr DEV_USERS_ENDPOINT
         else Inl (ValueError (''Unsupported object ID format: '' @ object_id)))"

definition get_object ::
  "api_config \<Rightarrow> client \<Rightarrow> string \<Rightarrow> (nat \<Rightarrow> attempt_result) \<Rightarrow> event list \<times> (py_exception + pyval)"
where
  "get_object cfg self object_id net =
     (case get_object_endpoint object_id of
        Inl ex \<Rightarrow> ([], Inl ex)
      | Inr endpoint \<Rightarrow>
          make_request cfg self ''GET'' (endpoint @ ''?id='' @ object_id) None None net)"

subsection \<open>update\_work\<close>

text \<open>\<open>if value is not None: payload[key] = value\<close>\<close>

definition supplied :: "string \<Rightarrow> string option \<Rightarrow> (string \<times> pyval) list" where
  "supplied key v = (case v of None \<Rightarrow> [] | Some s \<Rightarrow> [(key, PStr s)])"

definition update_work_payload ::
  "string \<Rightarrow> string option \<Rightarrow> string option \<Rightarrow> string option \<Rightarrow> string option \<Rightarrow>
   string option \<Rightarrow> (string \<times> pyval) list"
where
  "update_work_payload work_id title applies_to_part body stage status =
     [(''id'', PStr work_id)]
     @ supplied ''title'' title
     @ supplied ''applies_to_part'' applies_to_part
     @ supplied ''body'' body
     @ supplied ''stage'' stage
     @ supplied ''status'' status"

definition update_work ::
  "api_config \<Rightarrow> client \<Rightarrow> string \<Rightarrow> string option \<Rightarrow> string option \<Rightarrow> string option \<Rightarrow>
   string option \<Rightarrow> string option \<Rightarrow> (nat \<Rightarrow> attempt_result) \<Rightarrow>
   event list \<times> (py_exception + pyval)"
where
  "update_work cfg self work_id title applies_to_part body stage status net =
     make_request cfg self ''POST'' WORKS_UPDATE_ENDPOINT None
       (Some (update_work_payload work_id title applies_to_part body stage status)) net"

section \<open>The error classifier\<close>

lemma extract_message_dict:
  "extract_message (PDict kvs) =
     Inr (case map_of kvs ''message'' of
            Some m \<Rightarrow> m
          | None \<Rightarrow> (case map_of kvs ''error'' of Some m \<Rightarrow> m | None \<Rightarrow> PStr default_message))"
proof (cases "map_of kvs ''message''")
  case None
  then have no_msg: "''message'' \<notin> fst ` set kvs"
    by (simp add: map_of_eq_None_iff)
  show ?thesis
  proof (cases "map_of kvs ''error''")
    case None2: None
    then have "''error'' \<notin> fst ` set kvs"
      by (simp add: map_of_eq_None_iff)
    with no_msg None None2 show ?thesis
      by (simp add: extract_message_def)
  next
    case (Some m)
    then have "''error'' \<in> fst ` set kvs"
      by (metis map_of_eq_None_iff option.distinct(1))
    with no_msg None Some show ?thesis
      by (simp add: extract_message_def)
  qed
next
  case (Some m)
  then have "''message'' \<in> fst ` set kvs"
    by (metis map_of_eq_None_iff option.distinct(1))
  with Some show ?thesis
    by (simp add: extract_message_def)
qed

text \<open>
  What the classifier does with a response whose body is a JSON object or is not JSON at
  all: it raises the structured error with the status and the text of the response.
\<close>

lemma handle_api_error_object:
  "response error = Some r \<Longrightarrow> json_result r = Some (PDict kvs) \<Longrightarrow>
   handle_api_error error =
     Inl (DevRevAPIError
            (case map_of kvs ''message'' of
               Some m \<Rightarrow> m
             | None \<Rightarrow> (case map_of kvs ''error'' of Some m \<Rightarrow> m | None \<Rightarrow> PStr default_message))
            (status_code r) (body_text r))"
  by (simp add: handle_api_error_def extract_message_dict)

lemma handle_api_error_not_json:
  "response error = Some r \<Longrightarrow> json_result r = None \<Longrightarrow>
   handle_api_error error =
     Inl (DevRevAPIError (PStr (status_message (status_code r))) (status_code r) (body_text r))"
  by (simp add: handle_api_error_def)

lemma handle_api_error_response_raises:
  "response error = Some r \<Longrightarrow> \<exists>ex. handle_api_error error = Inl ex"
  by (auto simp: handle_api_error_def split: option.splits sum.splits)

text \<open>
  C2. The classifier does not raise for an exception that carries no response: it
  returns the pair of the connectivity message and 503.
\<close>

theorem handle_api_error_no_response_returns:
  "handle_api_error \<lparr>response = None\<rparr> =
     Inr (''Could not connect to DevRev API. Please check your internet connection.'', 503)"
  by (simp add: handle_api_error_def)

text \<open>
  C3. A response with status 500 whose body is the JSON text \<open>null\<close>: \<open>json()\<close> returns
  \<open>None\<close>, the membership test on it raises \<open>TypeError\<close>, and that is what leaves the
  classifier instead of the structured error.
\<close>

theorem handle_api_error_null_body:
  "handle_api_error
     \<lparr>response = Some \<lparr>status_code = 500, body_text = ''null'', json_result = Some PNone\<rparr>\<rparr> =
   Inl TypeError"
  by (simp add: handle_api_error_def extract_message_def)

section \<open>The two retry loops\<close>

lemma validate_token_loop_all_fail:
  "(\<forall>i. \<exists>e. net i = Fails e) \<Longrightarrow> int attempt \<le> m \<Longrightarrow>
     validate_token_loop m rq net attempt =
       (concat (map (\<lambda>i. [Attempt rq, Sleep (2 ^ i)]) [attempt..<nat m]) @ [Attempt rq], Inr PNone)"
proof (induction m rq net attempt rule: validate_token_loop.induct)
  case (1 m rq net attempt)
  from "1.prems"(1) obtain e where e: "net attempt = Fails e" by blast
  show ?case
  proof (cases "int attempt = m")
    case True
    then show ?thesis using e by (subst validate_token_loop.simps) simp
  next
    case False
    with "1.prems" have lt: "int (Suc attempt) \<le> m" by simp
    have lt': "int attempt < m + 1" using "1.prems" by simp
    have IH: "validate_token_loop m rq net (Suc attempt) =
       (concat (map (\<lambda>i. [Attempt rq, Sleep (2 ^ i)]) [Suc attempt..<nat m]) @ [Attempt rq], Inr PNone)"
      using "1.IH"[OF lt' e False "1.prems"(1) lt] .
    have up: "[attempt..<nat m] = attempt # [Suc attempt..<nat m]"
      using lt by (simp add: upt_conv_Cons)
    show ?thesis
      using e False lt' by (subst validate_token_loop.simps) (simp add: IH up after_def)
  qed
qed

lemma make_request_loop_all_fail_response:
  "(\<forall>i. \<exists>e r. net i = Fails e \<and> response e = Some r) \<Longrightarrow> int retries \<le> max_retries self \<Longrightarrow>
   req_method rq = ''GET'' \<or> req_method rq = ''POST'' \<Longrightarrow>
     \<exists>ex. make_request_loop self endpoint rq net retries =
       (concat (map (\<lambda>i. [Attempt rq, Sleep (2 ^ Suc i)]) [retries..<nat (max_retries self)]) @ [Attempt rq], Inl ex)
      \<and> (\<exists>e. net (nat (max_retries self)) = Fails e \<and> handle_api_error e = Inl ex)"
proof (induction self endpoint rq net retries rule: make_request_loop.induct)
  case (1 self endpoint rq net retries)
  from "1.prems"(1) obtain e r where e: "net retries = Fails e" "response e = Some r" by blast
  show ?case
  proof (cases "int retries = max_retries self")
    case True
    from e(2) obtain ex where ex: "handle_api_error e = Inl ex"
      using handle_api_error_response_raises by blast
    have "raised_when_exhausted self retries e = Some ex"
      using True ex by (simp add: raised_when_exhausted_def)
    moreover have "nat (max_retries self) = retries" using True by simp
    ultimately show ?thesis using e ex True "1.prems"(3)
      by (subst make_request_loop.simps) auto
  next
    case False
    with "1.prems" have lt: "int (Suc retries) \<le> max_retries self" by simp
    have none: "raised_when_exhausted self retries e = None"
      using False "1.prems"(2) by (simp add: raised_when_exhausted_def)
    from "1.IH"[OF "1.prems"(2) "1.prems"(3) e(1) none "1.prems"(1) lt "1.prems"(3)]
    obtain ex where IH: "make_request_loop self endpoint rq net (Suc retries) =
       (concat (map (\<lambda>i. [Attempt rq, Sleep (2 ^ Suc i)]) [Suc retries..<nat (max_retries self)]) @ [Attempt rq], Inl ex)"
       and last: "\<exists>e. net (nat (max_retries self)) = Fails e \<and> handle_api_error e = Inl ex"
      by blast
    have up: "[retries..<nat (max_retries self)] = retries # [Suc retries..<nat (max_retries self)]"
      using lt by (simp add: upt_conv_Cons)
    have "make_request_loop self endpoint rq net retries =
       (concat (map (\<lambda>i. [Attempt rq, Sleep (2 ^ Suc i)]) [retries..<nat (max_retries self)]) @ [Attempt rq], Inl ex)"
      using e none "1.prems"(2,3) by (subst make_request_loop.simps) (simp add: IH up after_def)
    with last show ?thesis by blast
  qed
qed

lemma make_request_loop_all_fail_no_response:
  "(\<forall>i. \<exists>e. net i = Fails e \<and> response e = None) \<Longrightarrow> int retries \<le> max_retries self + 1 \<Longrightarrow>
   req_method rq = ''GET'' \<or> req_method rq = ''POST'' \<Longrightarrow>
     make_request_loop self endpoint rq net retries =
       (concat (map (\<lambda>i. [Attempt rq, Sleep (2 ^ Suc i)]) [retries..<nat (max_retries self + 1)]),
        Inl (PlainException ''Maximum retries exceeded''))"
proof (induction self endpoint rq net retries rule: make_request_loop.induct)
  case (1 self endpoint rq net retries)
  from "1.prems"(1) obtain e where e: "net retries = Fails e" "response e = None" by blast
  show ?case
  proof (cases "int retries = max_retries self + 1")
    case True
    then show ?thesis by (subst make_request_loop.simps) simp
  next
    case False
    with "1.prems" have le: "int retries \<le> max_retries self" by simp
    then have lt: "int (Suc retries) \<le> max_retries self + 1" by simp
    have none: "raised_when_exhausted self retries e = None"
      using e(2) by (simp add: raised_when_exhausted_def handle_api_error_def)
    have IH: "make_request_loop self endpoint rq net (Suc retries) =
       (concat (map (\<lambda>i. [Attempt rq, Sleep (2 ^ Suc i)]) [Suc retries..<nat (max_retries self + 1)]),
        Inl (PlainException ''Maximum retries exceeded''))"
      using "1.IH"[OF le "1.prems"(3) e(1) none "1.prems"(1) lt "1.prems"(3)] .
    have up: "[retries..<nat (max_retries self + 1)] = retries # [Suc retries..<nat (max_retries self + 1)]"
    proof -
      from le have "retries < nat (max_retries self + 1)" by linarith
      then show ?thesis by (rule upt_conv_Cons)
    qed
    show ?thesis
      using e none le "1.prems"(3) by (subst make_request_loop.simps) (simp add: IH up after_def)
  qed
qed

text \<open>When an attempt succeeds after the earlier ones failed.\<close>

lemma validate_token_loop_success:
  "(\<forall>i. attempt \<le> i \<and> i < k \<longrightarrow> (\<exists>e. net i = Fails e)) \<Longrightarrow> net k = Succeeds user_data \<Longrightarrow>
   int k \<le> m \<Longrightarrow> attempt \<le> k \<Longrightarrow>
   snd (validate_token_loop m rq net attempt) = py_get user_data ''dev_user'' PNone"
proof (induction m rq net attempt rule: validate_token_loop.induct)
  case (1 m rq net attempt)
  have lt: "int attempt < m + 1" using "1.prems"(3,4) by simp
  show ?case
  proof (cases "attempt = k")
    case True
    then show ?thesis
      using "1.prems"(2) lt by (subst validate_token_loop.simps) simp
  next
    case False
    with "1.prems"(4) have less: "attempt < k" by simp
    with "1.prems"(1) obtain e where e: "net attempt = Fails e" by blast
    from less "1.prems"(3) have ne: "int attempt \<noteq> m" by simp
    have rest: "\<forall>i. Suc attempt \<le> i \<and> i < k \<longrightarrow> (\<exists>e. net i = Fails e)"
      using "1.prems"(1) by simp
    have IH: "snd (validate_token_loop m rq net (Suc attempt)) = py_get user_data ''dev_user'' PNone"
      using "1.IH" [OF lt e ne rest "1.prems"(2) "1.prems"(3)] less by simp
    show ?thesis
      using e ne lt by (subst validate_token_loop.simps) (simp add: IH after_def)
  qed
qed

lemma make_request_loop_success:
  "(\<forall>i. retries \<le> i \<and> i < k \<longrightarrow> (\<exists>e. net i = Fails e)) \<Longrightarrow> net k = Succeeds data \<Longrightarrow>
   int k \<le> max_retries self \<Longrightarrow> retries \<le> k \<Longrightarrow>
   req_method rq = ''GET'' \<or> req_method rq = ''POST'' \<Longrightarrow>
   snd (make_request_loop self endpoint rq net retries) = process_response endpoint data"
proof (induction self endpoint rq net retries rule: make_request_loop.induct)
  case (1 self endpoint rq net retries)
  have le: "int retries \<le> max_retries self" using "1.prems"(3,4) by simp
  show ?case
  proof (cases "retries = k")
    case True
    then show ?thesis
      using "1.prems"(2,5) le by (subst make_request_loop.simps) simp
  next
    case False
    with "1.prems"(4) have less: "retries < k" by simp
    with "1.prems"(1) obtain e where e: "net retries = Fails e" by blast
    have none: "raised_when_exhausted self retries e = None"
      using less "1.prems"(3) by (simp add: raised_when_exhausted_def)
    have rest: "\<forall>i. Suc retries \<le> i \<and> i < k \<longrightarrow> (\<exists>e. net i = Fails e)"
      using "1.prems"(1) by simp
    have IH: "snd (make_request_loop self endpoint rq net (Suc retries)) = process_response endpoint data"
      using "1.IH" [OF le "1.prems"(5) e none rest "1.prems"(2) "1.prems"(3) _ "1.prems"(5)] less by simp
    show ?thesis
      using e none le "1.prems"(5) by (subst make_request_loop.simps) (simp add: IH after_def)
  qed
qed

text \<open>Every network call of the executor is the request it was given.\<close>

lemma make_request_loop_attempts:
  "set (attempts (fst (make_request_loop self endpoint rq net retries))) \<subseteq> {rq}"
proof (induction self endpoint rq net retries rule: make_request_loop.induct)
  case (1 self endpoint rq net retries)
  show ?case
    using "1.IH"
    by (subst make_request_loop.simps)
       (auto simp: after_def split: attempt_result.splits option.splits)
qed

text \<open>Reading the attempts and the sleeps off a trace of failed attempts.\<close>

lemma attempts_backoff:
  "attempts (concat (map (\<lambda>i. [Attempt rq, Sleep (f i)]) xs) @ rest) = replicate (length xs) rq @ attempts rest"
  by (induction xs) simp_all

lemma sleeps_backoff:
  "sleeps (concat (map (\<lambda>i. [Attempt rq, Sleep (f i)]) xs) @ rest) = map f xs @ sleeps rest"
  by (induction xs) simp_all

text \<open>
  When every attempt fails with an exception that carries a response, the executor makes
  \<open>max_retries + 1\<close> attempts, sleeps 2, 4, 8, ... seconds between them and raises what
  the classifier raises.
\<close>

lemma make_request_http_failure:
  assumes "0 \<le> max_retries self"
    and "method = ''GET'' \<or> method = ''POST''"
    and "\<forall>i. \<exists>e r. net i = Fails e \<and> response e = Some r"
  shows "int (length (attempts (fst (make_request cfg self method endpoint params json net))))
           = max_retries self + 1
       \<and> sleeps (fst (make_request cfg self method endpoint params json net))
           = map (\<lambda>i. 2 ^ Suc i) [0..<nat (max_retries self)]
       \<and> (\<exists>ex. snd (make_request cfg self method endpoint params json net) = Inl ex)"
proof -
  let ?rq = "build_request cfg self method endpoint params json"
  have m: "req_method ?rq = ''GET'' \<or> req_method ?rq = ''POST''"
    using assms(2) by (simp add: build_request_def)
  from make_request_loop_all_fail_response [OF assms(3) _ m, of 0 self endpoint] assms(1)
  obtain ex where run: "make_request cfg self method endpoint params json net =
      (concat (map (\<lambda>i. [Attempt ?rq, Sleep (2 ^ Suc i)]) [0..<nat (max_retries self)]) @ [Attempt ?rq],
       Inl ex)"
    unfolding make_request_def by auto
  show ?thesis
    using assms(1) by (simp add: run attempts_backoff sleeps_backoff)
qed

section \<open>The shared request executor\<close>

text \<open>
  C1. With the default settings (three retries) and a connection error without a response
  on every attempt, the executor makes four attempts, sleeps 2, 4 and 8 seconds between
  them and 16 seconds more after the last one, and then raises the plain exception that
  stands behind the loop: the classifier returned instead of raising, so the backoff
  statements ran once more.
\<close>

theorem make_request_network_failure_run:
  "fst (make_request default_config (DevRevClient default_config ''pat'' None) ''GET''
          SEARCH_ENDPOINT None None (every_attempt (Fails \<lparr>response = None\<rparr>)))
     = (let rq = build_request default_config (DevRevClient default_config ''pat'' None) ''GET''
                   SEARCH_ENDPOINT None None
        in [Attempt rq, Sleep 2, Attempt rq, Sleep 4, Attempt rq, Sleep 8, Attempt rq, Sleep 16])
   \<and> sleeps (fst (make_request default_config (DevRevClient default_config ''pat'' None) ''GET''
                  SEARCH_ENDPOINT None None (every_attempt (Fails \<lparr>response = None\<rparr>))))
     = [2, 4, 8, 16]
   \<and> length (attempts (fst (make_request default_config (DevRevClient default_config ''pat'' None) ''GET''
                  SEARCH_ENDPOINT None None (every_attempt (Fails \<lparr>response = None\<rparr>))))) = 4
   \<and> snd (make_request default_config (DevRevClient default_config ''pat'' None) ''GET''
                  SEARCH_ENDPOINT None None (every_attempt (Fails \<lparr>response = None\<rparr>)))
     = Inl (PlainException ''Maximum retries exceeded'')"
proof -
  let ?self = "DevRevClient default_config ''pat'' None"
  let ?net = "every_attempt (Fails \<lparr>response = None\<rparr>)"
  have m: "max_retries ?self = 3" by (simp add: DevRevClient_def default_config_def)
  have h: "\<forall>i. \<exists>e. ?net i = Fails e \<and> response e = None"
    by (simp add: every_attempt_def)
  have up: "[0..<4] = [0, 1, 2, 3]" by (simp add: upt_rec)
  have "make_request_loop ?self SEARCH_ENDPOINT
          (build_request default_config ?self ''GET'' SEARCH_ENDPOINT None None) ?net 0 =
        (concat (map (\<lambda>i. [Attempt (build_request default_config ?self ''GET'' SEARCH_ENDPOINT None None),
                              Sleep (2 ^ Suc i)]) [0..<nat (max_retries ?self + 1)]),
         Inl (PlainException ''Maximum retries exceeded''))"
    by (rule make_request_loop_all_fail_no_response [OF h]) (simp_all add: m build_request_def)
  then show ?thesis
    using attempts_backoff [of _ _ _ "[]"] sleeps_backoff [of _ _ _ "[]"]
    by (simp add: make_request_def m up Let_def)
qed

text \<open>
  C10, as the code has it. On an endpoint with an envelope key, when an attempt within
  the retry budget succeeds after the earlier ones failed and the parsed body is a JSON
  object without that key, the executor returns the empty value of the endpoint: the
  empty list for search and the list endpoints, the empty dictionary for the
  single-object endpoints.
\<close>

theorem make_request_missing_envelope:
  assumes "(endpoint, envelope_key, dflt) \<in> set known_envelopes"
    and "method = ''GET'' \<or> method = ''POST''"
    and "int k \<le> max_retries self"
    and "\<forall>i<k. \<exists>e. net i = Fails e"
    and "net k = Succeeds (PDict kvs)"
    and "envelope_key \<notin> fst ` set kvs"
  shows "snd (make_request cfg self method endpoint params json net) = Inr dflt"
proof -
  have "snd (make_request cfg self method endpoint params json net) = process_response endpoint (PDict kvs)"
    unfolding make_request_def
    by (rule make_request_loop_success [where k = k]) (use assms in \<open>simp_all add: build_request_def\<close>)
  moreover have "map_of kvs envelope_key = None"
    using assms(6) by (simp add: map_of_eq_None_iff)
  moreover have "process_response endpoint (PDict kvs) =
      Inr (case map_of kvs envelope_key of Some v \<Rightarrow> v | None \<Rightarrow> dflt)"
    using assms(1)
    by (auto simp: known_envelopes_def process_response_def SEARCH_ENDPOINT_def WORKS_LIST_ENDPOINT_def
          WORKS_CREATE_ENDPOINT_def WORKS_UPDATE_ENDPOINT_def PARTS_ENDPOINT_def PARTS_LIST_ENDPOINT_def)
  ultimately show ?thesis by simp
qed

theorem make_request_missing_envelope_witness:
  "snd (make_request default_config (DevRevClient default_config ''pat'' None) ''GET'' SEARCH_ENDPOINT
          None None (every_attempt (Succeeds (PDict [(''next_cursor'', PStr ''c'')])))) = Inr (PList [])"
proof -
  have h1: "(SEARCH_ENDPOINT, ''results'', PList []) \<in> set known_envelopes"
    by (simp add: known_envelopes_def)
  have h3: "int 0 \<le> max_retries (DevRevClient default_config ''pat'' None)"
    by (simp add: DevRevClient_def default_config_def)
  have h4: "\<forall>i<0::nat. \<exists>e. every_attempt r i = Fails e" for r by simp
  have h5: "every_attempt (Succeeds (PDict kvs)) 0 = Succeeds (PDict kvs)" for kvs
    by (simp add: every_attempt_def)
  have h6: "''results'' \<notin> fst ` set [(''next_cursor'', PStr ''c'')]" by simp
  show ?thesis
    using make_request_missing_envelope [OF h1 _ h3 h4 h5 h6, of "''GET''"] by simp
qed

text \<open>
  C10 as stated fails: a successful search response whose parsed body is the JSON array
  \<open>[]\<close> has no \<open>results\<close> key, and the executor fails with \<open>AttributeError\<close>, since a
  list has no \<open>get\<close>.
\<close>

theorem make_request_list_body_raises:
  "snd (make_request default_config (DevRevClient default_config ''pat'' None) ''GET'' SEARCH_ENDPOINT
          None None (every_attempt (Succeeds (PList [])))) = Inl AttributeError"
  by (simp add: make_request_def make_request_loop.simps every_attempt_def default_config_def
        DevRevClient_def build_request_def process_response_def)

section \<open>The operations of the client\<close>

lemma namespace_map_known:
  "ns \<in> set valid_namespaces \<Longrightarrow>
   map_of namespace_map ns = Some (if ns = ''article'' then ''artifact'' else ns)"
  unfolding valid_namespaces_def namespace_map_def by auto

text \<open>
  C6. For every query and namespace, \<open>search\<close> goes straight to the executor with a GET
  on the search endpoint whose parameters are the query, the limit 10 and the wire
  namespace: \<open>artifact\<close> for \<open>article\<close>, the namespace itself for every other known tag,
  and \<open>issue\<close> for every string that is not a known tag. Nothing is raised on the way.
\<close>

theorem search_request:
  "search cfg self query namespace net =
     make_request cfg self ''GET'' ''/search.core''
       (Some [(''query'', PStr query),
              (''namespaces'',
                 PStr (if namespace = ''article'' then ''artifact''
                       else if namespace \<in> set valid_namespaces then namespace
                       else ''issue'')),
              (''limit'', PInt 10)])
       None net"
proof (cases "namespace \<in> set valid_namespaces")
  case True
  then show ?thesis
    by (simp add: search_def search_params_def SEARCH_ENDPOINT_def namespace_map_known)
next
  case False
  moreover have "''article'' \<in> set valid_namespaces" by (simp add: valid_namespaces_def)
  ultimately have "namespace \<noteq> ''article''" by blast
  moreover have "map_of namespace_map ''issue'' = Some ''issue''" by (simp add: namespace_map_def)
  ultimately show ?thesis
    using False by (simp add: search_def search_params_def SEARCH_ENDPOINT_def)
qed

theorem search_request_witness:
  "search default_config (DevRevClient default_config ''pat'' None) ''login'' ''article''
     (every_attempt (Succeeds (PDict []))) =
   make_request default_config (DevRevClient default_config ''pat'' None) ''GET'' ''/search.core''
     (Some [(''query'', PStr ''login''), (''namespaces'', PStr ''artifact''), (''limit'', PInt 10)])
     None (every_attempt (Succeeds (PDict [])))
   \<and> search default_config (DevRevClient default_config ''pat'' None) ''login'' ''ticket''
     (every_attempt (Succeeds (PDict []))) =
   make_request default_config (DevRevClient default_config ''pat'' None) ''GET'' ''/search.core''
     (Some [(''query'', PStr ''login''), (''namespaces'', PStr ''ticket''), (''limit'', PInt 10)])
     None (every_attempt (Succeeds (PDict [])))
   \<and> search default_config (DevRevClient default_config ''pat'' None) ''login'' ''bogus''
     (every_attempt (Succeeds (PDict []))) =
   make_request default_config (DevRevClient default_config ''pat'' None) ''GET'' ''/search.core''
     (Some [(''query'', PStr ''login''), (''namespaces'', PStr ''issue''), (''limit'', PInt 10)])
     None (every_attempt (Succeeds (PDict [])))"
  using search_request [of default_config "DevRevClient default_config ''pat'' None" "''login''"
          "''article''" "every_attempt (Succeeds (PDict []))"]
        search_request [of default_config "DevRevClient default_config ''pat'' None" "''login''"
          "''ticket''" "every_attempt (Succeeds (PDict []))"]
        search_request [of default_config "DevRevClient default_config ''pat'' None" "''login''"
          "''bogus''" "every_attempt (Succeeds (PDict []))"]
  by (simp add: valid_namespaces_def)

text \<open>
  C7, as the code has it. \<open>create_work\<close> raises \<open>ValueError\<close> with no network call when
  the work type is neither \<open>issue\<close> nor \<open>task\<close> (so always for \<open>ticket\<close>), and when the
  type is \<open>issue\<close> and the part reference is \<open>None\<close> or empty. Otherwise it posts a
  payload whose \<open>owned_by\<close> is the one-element list of the cached identity's \<open>id\<close> when
  the client holds a non-empty identity, and the empty list when it holds none.
\<close>

theorem create_work_contract:
  "(work_type \<noteq> ''issue'' \<and> work_type \<noteq> ''task'' \<longrightarrow>
      (\<exists>msg. create_work cfg self work_type title applies_to_part body net = ([], Inl (ValueError msg))))
   \<and> (\<exists>msg. create_work cfg self ''ticket'' title applies_to_part body net = ([], Inl (ValueError msg)))
   \<and> (work_type = ''issue'' \<and> (applies_to_part = None \<or> applies_to_part = Some '''') \<longrightarrow>
      create_work cfg self work_type title applies_to_part body net =
        ([], Inl (ValueError ''applies_to_part is required for issues'')))
   \<and> ((work_type = ''task'' \<or> work_type = ''issue'' \<and> truthy applies_to_part) \<longrightarrow>
      (\<exists>payload.
         create_work cfg self work_type title applies_to_part body net =
           make_request cfg self ''POST'' ''/works.create'' None (Some payload) net
         \<and> map_of payload ''owned_by'' =
             Some (PList (case current_user self of
                            None \<Rightarrow> []
                          | Some user \<Rightarrow>
                              if user = [] then []
                              else [case map_of user ''id'' of Some uid \<Rightarrow> uid | None \<Rightarrow> PNone]))))"
proof -
  have a: "work_type \<noteq> ''issue'' \<and> work_type \<noteq> ''task'' \<longrightarrow>
      (\<exists>msg. create_work cfg self work_type title applies_to_part body net = ([], Inl (ValueError msg)))"
    by (simp add: create_work_def create_work_payload_def)
  have b: "\<exists>msg. create_work cfg self ''ticket'' title applies_to_part body net = ([], Inl (ValueError msg))"
    by (simp add: create_work_def create_work_payload_def)
  have c: "work_type = ''issue'' \<and> (applies_to_part = None \<or> applies_to_part = Some '''') \<longrightarrow>
      create_work cfg self work_type title applies_to_part body net =
        ([], Inl (ValueError ''applies_to_part is required for issues''))"
    by (auto simp: create_work_def create_work_payload_def)
  have d: "(work_type = ''task'' \<or> work_type = ''issue'' \<and> truthy applies_to_part) \<longrightarrow>
      (\<exists>payload.
         create_work cfg self work_type title applies_to_part body net =
           make_request cfg self ''POST'' ''/works.create'' None (Some payload) net
         \<and> map_of payload ''owned_by'' =
             Some (PList (case current_user self of
                            None \<Rightarrow> []
                          | Some user \<Rightarrow>
                              if user = [] then []
                              else [case map_of user ''id'' of Some uid \<Rightarrow> uid | None \<Rightarrow> PNone])))"
    by (auto simp: create_work_def create_work_payload_def WORKS_CREATE_ENDPOINT_def Let_def)
  from a b c d show ?thesis by blast
qed

theorem create_work_contract_witness:
  "(\<exists>msg. create_work default_config (DevRevClient default_config ''pat'' (Some [(''id'', PStr ''DEVU-1'')]))
            ''epic'' ''t'' None None (every_attempt (Succeeds (PDict []))) = ([], Inl (ValueError msg)))
   \<and> create_work default_config (DevRevClient default_config ''pat'' (Some [(''id'', PStr ''DEVU-1'')]))
        ''issue'' ''t'' None None (every_attempt (Succeeds (PDict []))) =
        ([], Inl (ValueError ''applies_to_part is required for issues''))
   \<and> (\<exists>payload.
         create_work default_config (DevRevClient default_config ''pat'' (Some [(''id'', PStr ''DEVU-1'')]))
           ''task'' ''t'' None None (every_attempt (Succeeds (PDict []))) =
         make_request default_config (DevRevClient default_config ''pat'' (Some [(''id'', PStr ''DEVU-1'')]))
           ''POST'' ''/works.create'' None (Some payload) (every_attempt (Succeeds (PDict [])))
         \<and> map_of payload ''owned_by'' = Some (PList [PStr ''DEVU-1'']))"
  using create_work_contract [of "''epic''" default_config
          "DevRevClient default_config ''pat'' (Some [(''id'', PStr ''DEVU-1'')])" "''t''" None None
          "every_attempt (Succeeds (PDict []))"]
        create_work_contract [of "''issue''" default_config
          "DevRevClient default_config ''pat'' (Some [(''id'', PStr ''DEVU-1'')])" "''t''" None None
          "every_attempt (Succeeds (PDict []))"]
        create_work_contract [of "''task''" default_config
          "DevRevClient default_config ''pat'' (Some [(''id'', PStr ''DEVU-1'')])" "''t''" None None
          "every_attempt (Succeeds (PDict []))"]
  by (simp add: DevRevClient_def)

text \<open>
  C7 as stated fails: on a client built without an identity, the payload of an accepted
  call has the empty list as \<open>owned_by\<close>, not a one-element list.
\<close>

theorem create_work_without_identity:
  "create_work_payload (DevRevClient default_config ''pat'' None) ''task'' ''t'' None None =
     Inr [(''type'', PStr ''task''), (''title'', PStr ''t''), (''owned_by'', PList [])]"
  by (simp add: create_work_payload_def DevRevClient_def)

text \<open>
  C8. \<open>get_object\<close> looks at the prefix of the id only: \<open>ISS-\<close>, \<open>TKT-\<close> and \<open>ART-\<close> go
  to the works endpoint, \<open>SELF\<close> and \<open>DEVU-\<close> to the dev-users endpoint, and every other
  id raises the unsupported-format \<open>ValueError\<close> with no network call.
\<close>

theorem get_object_routing:
  "get_object cfg self object_id net =
     (if startswith object_id ''ISS-'' \<or> startswith object_id ''TKT-'' \<or> startswith object_id ''ART-''
      then make_request cfg self ''GET'' (''/works.get?id='' @ object_id) None None net
      else if object_id = ''SELF'' \<or> startswith object_id ''DEVU-''
      then make_request cfg self ''GET'' (''/dev-users.get?id='' @ object_id) None None net
      else ([], Inl (ValueError (''Unsupported object ID format: '' @ object_id))))"
  by (simp add: get_object_def get_object_endpoint_def determine_object_type_def
        WORKS_ENDPOINT_def DEV_USERS_ENDPOINT_def)

theorem get_object_routing_witness:
  "get_object default_config (DevRevClient default_config ''pat'' None) ''ISS-42''
     (every_attempt (Succeeds (PDict []))) =
   make_request default_config (DevRevClient default_config ''pat'' None) ''GET'' ''/works.get?id=ISS-42''
     None None (every_attempt (Succeeds (PDict [])))
   \<and> get_object default_config (DevRevClient default_config ''pat'' None) ''TKT-42''
     (every_attempt (Succeeds (PDict []))) =
   make_request default_config (DevRevClient default_config ''pat'' None) ''GET'' ''/works.get?id=TKT-42''
     None None (every_attempt (Succeeds (PDict [])))
   \<and> get_object default_config (DevRevClient default_config ''pat'' None) ''SELF''
     (every_attempt (Succeeds (PDict []))) =
   make_request default_config (DevRevClient default_config ''pat'' None) ''GET'' ''/dev-users.get?id=SELF''
     None None (every_attempt (Succeeds (PDict [])))
   \<and> get_object default_config (DevRevClient default_config ''pat'' None) ''XYZ-1''
     (every_attempt (Succeeds (PDict []))) =
   ([], Inl (ValueError ''Unsupported object ID format: XYZ-1''))"
  using get_object_routing [of default_config "DevRevClient default_config ''pat'' None" "''ISS-42''"
          "every_attempt (Succeeds (PDict []))"]
        get_object_routing [of default_config "DevRevClient default_config ''pat'' None" "''TKT-42''"
          "every_attempt (Succeeds (PDict []))"]
        get_object_routing [of default_config "DevRevClient default_config ''pat'' None" "''SELF''"
          "every_attempt (Succeeds (PDict []))"]
        get_object_routing [of default_config "DevRevClient default_config ''pat'' None" "''XYZ-1''"
          "every_attempt (Succeeds (PDict []))"]
  by (simp add: startswith_def)

text \<open>
  C9. \<open>update_work\<close> posts a payload that holds the id and exactly the fields among
  title, applies\_to\_part, body, stage and status that are not \<open>None\<close>, each once; with
  only the status supplied the payload is the id and the status.
\<close>

theorem update_work_partial:
  "update_work cfg self work_id title applies_to_part body stage status net =
     make_request cfg self ''POST'' ''/works.update'' None
       (Some (update_work_payload work_id title applies_to_part body stage status)) net
   \<and> map_of (update_work_payload work_id title applies_to_part body stage status) =
       (\<lambda>k. if k = ''id'' then Some (PStr work_id)
            else if k = ''title'' then map_option PStr title
            else if k = ''applies_to_part'' then map_option PStr applies_to_part
            else if k = ''body'' then map_option PStr body
            else if k = ''stage'' then map_option PStr stage
            else if k = ''status'' then map_option PStr status
            else None)
   \<and> distinct (map fst (update_work_payload work_id title applies_to_part body stage status))
   \<and> update_work_payload work_id None None None None (Some new_status) =
       [(''id'', PStr work_id), (''status'', PStr new_status)]"
proof -
  have m: "map_of (update_work_payload work_id title applies_to_part body stage status) =
       (\<lambda>k. if k = ''id'' then Some (PStr work_id)
            else if k = ''title'' then map_option PStr title
            else if k = ''applies_to_part'' then map_option PStr applies_to_part
            else if k = ''body'' then map_option PStr body
            else if k = ''stage'' then map_option PStr stage
            else if k = ''status'' then map_option PStr status
            else None)"
    by (rule ext) (simp add: update_work_payload_def supplied_def split: option.splits)
  have d: "distinct (map fst (update_work_payload work_id title applies_to_part body stage status))"
    by (simp add: update_work_payload_def supplied_def split: option.splits)
  have s: "update_work_payload work_id None None None None (Some new_status) =
       [(''id'', PStr work_id), (''status'', PStr new_status)]"
    by (simp add: update_work_payload_def supplied_def)
  show ?thesis
    using m d s by (simp add: update_work_def WORKS_UPDATE_ENDPOINT_def)
qed

theorem update_work_partial_witness:
  "update_work default_config (DevRevClient default_config ''pat'' None) ''ISS-42'' None None None None
     (Some ''closed'') (every_attempt (Succeeds (PDict []))) =
   make_request default_config (DevRevClient default_config ''pat'' None) ''POST'' ''/works.update'' None
     (Some [(''id'', PStr ''ISS-42''), (''status'', PStr ''closed'')])
     (every_attempt (Succeeds (PDict [])))"
  using update_work_partial [of default_config "DevRevClient default_config ''pat'' None" "''ISS-42''"
          None None None None "Some ''closed''" "every_attempt (Succeeds (PDict []))" "''closed''"]
  by simp

section \<open>The auth validator\<close>

text \<open>
  C4. When the retry count is not negative and every attempt fails, the validator makes
  \<open>max_retries + 1\<close> attempts, sleeps \<open>2 ^ attempt\<close> seconds after each attempt but
  the last (1, 2, 4, ... seconds, attempt counted from 0) and returns \<open>None\<close>; it does
  not raise.
\<close>

theorem validate_token_exhausted:
  assumes "0 \<le> api_retries cfg" and "\<forall>i. \<exists>e. net i = Fails e"
  shows "fst (validate_token cfg key net) =
           concat (map (\<lambda>i. [Attempt (validate_token_request cfg key), Sleep (2 ^ i)])
                     [0..<nat (api_retries cfg)])
           @ [Attempt (validate_token_request cfg key)]
         \<and> int (length (attempts (fst (validate_token cfg key net)))) = api_retries cfg + 1
         \<and> sleeps (fst (validate_token cfg key net)) = map (\<lambda>i. 2 ^ i) [0..<nat (api_retries cfg)]
         \<and> snd (validate_token cfg key net) = Inr PNone"
proof -
  have run: "validate_token cfg key net =
      (concat (map (\<lambda>i. [Attempt (validate_token_request cfg key), Sleep (2 ^ i)])
                 [0..<nat (api_retries cfg)])
       @ [Attempt (validate_token_request cfg key)], Inr PNone)"
    unfolding validate_token_def
    using validate_token_loop_all_fail [OF assms(2), of 0 "api_retries cfg"] assms(1) by simp
  have "int (length (attempts (fst (validate_token cfg key net)))) = api_retries cfg + 1"
    using assms(1) by (simp add: run attempts_backoff)
  moreover have "sleeps (fst (validate_token cfg key net)) = map (\<lambda>i. 2 ^ i) [0..<nat (api_retries cfg)]"
    by (simp add: run sleeps_backoff)
  ultimately show ?thesis by (simp add: run)
qed

theorem validate_token_exhausted_witness:
  "sleeps (fst (validate_token default_config ''pat'' (every_attempt (Fails \<lparr>response = None\<rparr>)))) = [1, 2, 4]
   \<and> length (attempts (fst (validate_token default_config ''pat'' (every_attempt (Fails \<lparr>response = None\<rparr>))))) = 4
   \<and> snd (validate_token default_config ''pat'' (every_attempt (Fails \<lparr>response = None\<rparr>))) = Inr PNone"
proof -
  have h1: "0 \<le> api_retries default_config" by (simp add: default_config_def)
  have h2: "\<forall>i. \<exists>e. every_attempt (Fails \<lparr>response = None\<rparr>) i = Fails e"
    by (simp add: every_attempt_def)
  have n: "nat (api_retries default_config) = 3" by (simp add: default_config_def)
  have up: "[0..<3] = [0, 1, 2]" by (simp add: upt_rec)
  show ?thesis
    using validate_token_exhausted [OF h1 h2, of "''pat''"]
    by (simp add: n up default_config_def)
qed

text \<open>
  C5, as the code has it. When an attempt within the retry budget succeeds after the
  earlier ones failed and the body is a JSON object, the validator returns the value
  stored under \<open>dev_user\<close>, and returns \<open>None\<close> when the object has no such key: no
  exception is raised, and the result is the \<open>None\<close> that exhausted retries give.
\<close>

theorem validate_token_success:
  assumes "int k \<le> api_retries cfg"
    and "\<forall>i<k. \<exists>e. net i = Fails e"
    and "net k = Succeeds (PDict kvs)"
  shows "(map_of kvs ''dev_user'' = Some identity \<longrightarrow> snd (validate_token cfg key net) = Inr identity)
       \<and> (''dev_user'' \<notin> fst ` set kvs \<longrightarrow> snd (validate_token cfg key net) = Inr PNone)"
proof -
  have "snd (validate_token cfg key net) = py_get (PDict kvs) ''dev_user'' PNone"
    unfolding validate_token_def
    by (rule validate_token_loop_success [where k = k]) (use assms in simp_all)
  moreover have "''dev_user'' \<notin> fst ` set kvs \<Longrightarrow> map_of kvs ''dev_user'' = None"
    by (simp add: map_of_eq_None_iff)
  ultimately show ?thesis
    by auto
qed

theorem validate_token_success_witness:
  "snd (validate_token default_config ''pat''
          (every_attempt (Succeeds (PDict [(''dev_user'', PDict [(''id'', PStr ''DEVU-1'')])]))))
     = Inr (PDict [(''id'', PStr ''DEVU-1'')])
   \<and> snd (validate_token default_config ''pat'' (every_attempt (Succeeds (PDict [(''other'', PInt 1)]))))
     = Inr PNone"
proof -
  have h1: "int 0 \<le> api_retries default_config" by (simp add: default_config_def)
  have h2: "\<forall>i<0::nat. \<exists>e. every_attempt r i = Fails e" for r by simp
  have a: "every_attempt (Succeeds (PDict kvs)) 0 = Succeeds (PDict kvs)" for kvs
    by (simp add: every_attempt_def)
  show ?thesis
    using validate_token_success [OF h1 h2 a, of "[(''dev_user'', PDict [(''id'', PStr ''DEVU-1'')])]"
            "PDict [(''id'', PStr ''DEVU-1'')]" "''pat''"]
          validate_token_success [OF h1 h2 a, of "[(''other'', PInt 1)]" PNone "''pat''"]
    by simp
qed

text \<open>
  C5 as stated fails: a successful response with the body \<open>{}\<close> makes the validator
  return \<open>None\<close>, not an empty identity, and \<open>None\<close> is also what it returns when every
  attempt fails.
\<close>

theorem validate_token_missing_key_is_none:
  "snd (validate_token default_config ''pat'' (every_attempt (Succeeds (PDict [])))) = Inr PNone
   \<and> snd (validate_token default_config ''pat'' (every_attempt (Fails \<lparr>response = None\<rparr>))) = Inr PNone"
  by (simp add: validate_token_def validate_token_loop.simps every_attempt_def default_config_def after_def)

end
